theory Spec2Isabelle
  imports Complex_Main "HOL-Library.Word"
begin

section \<open>Data model (src/types.ts)\<close>

text \<open>
  A JavaScript string is a sequence of UTF-16 code units. ASCII text is written as an
  Isabelle string literal and widened by \<open>ascii\<close>; other code units are given by number.
\<close>

type_synonym jsstring = "16 word list"

definition ascii :: "string \<Rightarrow> jsstring" where
  "ascii cs = map of_char cs"

text \<open>The \<open>number\<close> fields of a verdict are never computed with; they are reals here.\<close>

record Verdict =
  catPercentage :: real
  dogPercentage :: real
  reasoning :: jsstring
  solution :: jsstring

text \<open>
  The fields \<open>catArg\<close>, \<open>dogArg\<close> and \<open>verdict\<close> of a \<open>CaseRound\<close> carry the prefix
  \<open>r_\<close>: the component state below has variables of the same names.
\<close>

record CaseRound =
  roundNumber :: nat
  r_catArg :: jsstring
  r_dogArg :: jsstring
  r_verdict :: Verdict

record CharacterImages =
  judge :: "jsstring option"
  catDebater :: "jsstring option"
  dogDebater :: "jsstring option"

datatype CharacterType = JUDGE | CAT_DEBATER | DOG_DEBATER

fun CharacterPrompts :: "CharacterType \<Rightarrow> jsstring" where
  "CharacterPrompts JUDGE =
     ascii ''Cute chibi-style anthropomorphic orange tabby cat judge with soft detailed shading and gentle fur texture. Large head, big glossy round eyes, warm friendly expression. Wearing a traditional judge''
     @ [0x2019]
     @ ascii ''s robe and white curled wig, holding a wooden gavel and a small book. Pastel colors, smooth clean line art, soft lighting, adorable cartoon illustration style. Circular avatar frame with a simple courtroom background. Not flat, not minimalist, not vector-art, not icon-style, not geometric.''"
| "CharacterPrompts CAT_DEBATER =
     ascii ''Cute chibi-style anthropomorphic British Shorthair cat debater with plush dense fur and soft detailed shading. Round head, big glossy eyes, chubby cheeks, calm confident expression. Wearing debate attire or a neat suit, holding a microphone or debate notes. Pastel colors, smooth clean line art, soft lighting, cute cartoon illustration style. Circular avatar frame with a simple debate podium background. Not flat, not minimalist, not vector-art, not icon-style, not geometric.''"
| "CharacterPrompts DOG_DEBATER =
     ascii ''Cute chibi-style anthropomorphic Corgi dog debater with fluffy white and orange-brown fur and soft detailed shading. Large pointed ears, big glossy eyes, happy confident expression. Wearing debate attire or a neat suit, holding a microphone or debate notes. Pastel colors, smooth clean line art, soft lighting, cute cartoon illustration style. Circular avatar frame with a simple debate podium background. Not flat, not minimalist, not vector-art, not icon-style, not geometric.''"

text \<open>The prompts are long: their equations are unfolded only where a proof asks for them.\<close>

declare CharacterPrompts.simps [simp del]

section \<open>Component state and effects (src/App.tsx)\<close>

text \<open>
  One field per \<open>useState\<close> variable of \<open>App\<close>, and \<open>lastTypeTime\<close> for the
  \<open>useRef\<close> cell. A setter call is a record update.
\<close>

record AppState =
  images :: CharacterImages
  loadingImages :: bool
  catName :: jsstring
  dogName :: jsstring
  catArg :: jsstring
  dogArg :: jsstring
  verdict :: "Verdict option"
  isJudging :: bool
  history :: "CaseRound list"
  lastTypeTime :: int

definition initialState :: AppState where
  "initialState =
     \<lparr>images = \<lparr>judge = None, catDebater = None, dogDebater = None\<rparr>,
      loadingImages = True,
      catName = [], dogName = [],
      catArg = [], dogArg = [],
      verdict = None, isJudging = False, history = [],
      lastTypeTime = 0\<rparr>"

text \<open>
  What a handler does besides setting state, in program order: calls to the imported
  services, sounds, console output, the alert and the scroll. The value logged to the
  console is not recorded.
\<close>

datatype effect =
    PlaySound jsstring
  | ScrollToTop
  | ConsoleWarn
  | ConsoleError
  | Alert jsstring
  | LoadImagesFromDB jsstring
  | GenerateCharacterImage jsstring
  | SaveImagesToDB jsstring CharacterImages
  | GetJudgment jsstring jsstring jsstring jsstring "CaseRound list"

definition STORAGE_KEY :: jsstring where
  "STORAGE_KEY = ascii ''purrfect_justice_avatars_v1''"

section \<open>Appeal and accept\<close>

definition handleAppeal :: "AppState \<Rightarrow> AppState \<times> effect list" where
  "handleAppeal s =
     (case verdict s of
        None \<Rightarrow> (s, [])
      | Some v \<Rightarrow>
          (let newRound = \<lparr>roundNumber = length (history s) + 1,
                           r_catArg = catArg s, r_dogArg = dogArg s, r_verdict = v\<rparr>
           in (s\<lparr>history := history s @ [newRound],
                 verdict := None, catArg := [], dogArg := []\<rparr>,
               [ScrollToTop])))"

definition handleAcceptVerdict :: "AppState \<Rightarrow> AppState \<times> effect list" where
  "handleAcceptVerdict s =
     (s\<lparr>verdict := None, catArg := [], dogArg := [], history := [],
        catName := [], dogName := []\<rparr>,
      [ScrollToTop])"

section \<open>Strings of the JavaScript runtime\<close>

text \<open>
  \<open>String.prototype.trim\<close> removes the ECMAScript white space and line terminator code
  units from both ends. A string is falsy exactly when it is empty; \<open>null\<close> is falsy.
\<close>

definition isWhiteSpace :: "16 word \<Rightarrow> bool" where
  "isWhiteSpace c \<longleftrightarrow>
     c \<in> set [0x0009, 0x000A, 0x000B, 0x000C, 0x000D, 0x0020, 0x00A0, 0x1680,
              0x2028, 0x2029, 0x202F, 0x205F, 0x3000, 0xFEFF]
     \<or> (0x2000 \<le> c \<and> c \<le> 0x200A)"

definition trim :: "jsstring \<Rightarrow> jsstring" where
  "trim s = rev (dropWhile isWhiteSpace (rev (dropWhile isWhiteSpace s)))"

definition truthy :: "jsstring \<Rightarrow> bool" where
  "truthy s \<longleftrightarrow> s \<noteq> []"

fun truthyOpt :: "jsstring option \<Rightarrow> bool" where
  "truthyOpt None = False"
| "truthyOpt (Some s) = truthy s"

text \<open>\<open>a || b\<close> on strings.\<close>

definition js_or :: "jsstring \<Rightarrow> jsstring \<Rightarrow> jsstring" where
  "js_or a b = (if truthy a then a else b)"

section \<open>Imported services\<close>

text \<open>
  \<open>services/storageService\<close> and \<open>services/geminiService\<close> are imported by \<open>App.tsx\<close>
  and are parameters here. Each is an asynchronous call that either resolves with a value
  (\<open>Inr\<close>) or rejects (\<open>Inl\<close>). A generated image has the type of a field of
  \<open>CharacterImages\<close>, and a cache load resolves with a record or with nothing.
\<close>

datatype js_error = JsError jsstring

record Services =
  loadImagesFromDB :: "jsstring \<Rightarrow> js_error + CharacterImages option"
  generateCharacterImage :: "jsstring \<Rightarrow> js_error + jsstring option"
  saveImagesToDB :: "jsstring \<Rightarrow> CharacterImages \<Rightarrow> js_error + unit"
  getJudgment ::
    "jsstring \<Rightarrow> jsstring \<Rightarrow> jsstring \<Rightarrow> jsstring \<Rightarrow> CaseRound list \<Rightarrow> js_error + Verdict"

section \<open>Startup: loading or generating the images\<close>

text \<open>\<open>cached.judge && cached.catDebater && cached.dogDebater\<close>\<close>

definition allPresent :: "CharacterImages \<Rightarrow> bool" where
  "allPresent c \<longleftrightarrow> truthyOpt (judge c) \<and> truthyOpt (catDebater c) \<and> truthyOpt (dogDebater c)"

text \<open>
  Steps 2 and 3 of \<open>loadImages\<close>. The three calls are made before \<open>Promise.all\<close> joins
  them, so all three are in the log whatever their outcome; the join rejects when any of
  them does. A rejected save reaches the same \<open>catch\<close>, after \<open>setImages\<close>.
\<close>

definition generateImages :: "Services \<Rightarrow> AppState \<Rightarrow> AppState \<times> effect list" where
  "generateImages env s =
     (let s1 = s\<lparr>loadingImages := True\<rparr>;
          calls = [GenerateCharacterImage (CharacterPrompts JUDGE),
                   GenerateCharacterImage (CharacterPrompts CAT_DEBATER),
                   GenerateCharacterImage (CharacterPrompts DOG_DEBATER)]
      in case (generateCharacterImage env (CharacterPrompts JUDGE),
               generateCharacterImage env (CharacterPrompts CAT_DEBATER),
               generateCharacterImage env (CharacterPrompts DOG_DEBATER)) of
           (Inr judgeImg, Inr catImg, Inr dogImg) \<Rightarrow>
             (let newImages = \<lparr>judge = judgeImg, catDebater = catImg, dogDebater = dogImg\<rparr>;
                  s2 = s1\<lparr>images := newImages\<rparr>
              in case saveImagesToDB env STORAGE_KEY newImages of
                   Inr u \<Rightarrow>
                     (s2\<lparr>loadingImages := False\<rparr>,
                      calls @ [SaveImagesToDB STORAGE_KEY newImages])
                 | Inl e \<Rightarrow>
                     (s2\<lparr>loadingImages := False\<rparr>,
                      calls @ [SaveImagesToDB STORAGE_KEY newImages, ConsoleError]))
         | _ \<Rightarrow> (s1\<lparr>loadingImages := False\<rparr>, calls @ [ConsoleError]))"

definition loadImages :: "Services \<Rightarrow> AppState \<Rightarrow> AppState \<times> effect list" where
  "loadImages env s =
     (case loadImagesFromDB env STORAGE_KEY of
        Inr (Some cached) \<Rightarrow>
          if allPresent cached
          then (s\<lparr>images := cached, loadingImages := False\<rparr>, [LoadImagesFromDB STORAGE_KEY])
          else apsnd ((@) [LoadImagesFromDB STORAGE_KEY]) (generateImages env s)
      | Inr None \<Rightarrow> apsnd ((@) [LoadImagesFromDB STORAGE_KEY]) (generateImages env s)
      | Inl e \<Rightarrow>
          apsnd ((@) [LoadImagesFromDB STORAGE_KEY, ConsoleWarn]) (generateImages env s))"

text \<open>The prompts of the generation calls in a log, and the records saved.\<close>

fun generationCalls :: "effect list \<Rightarrow> jsstring list" where
  "generationCalls [] = []"
| "generationCalls (GenerateCharacterImage p # es) = p # generationCalls es"
| "generationCalls (e # es) = generationCalls es"

fun cacheWrites :: "effect list \<Rightarrow> (jsstring \<times> CharacterImages) list" where
  "cacheWrites [] = []"
| "cacheWrites (SaveImagesToDB k r # es) = (k, r) # cacheWrites es"
| "cacheWrites (e # es) = cacheWrites es"

section \<open>Typing sound\<close>

text \<open>\<open>now\<close> is the value of \<open>Date.now()\<close>, an integer number of milliseconds.\<close>

definition handleTypingSound :: "int \<Rightarrow> AppState \<Rightarrow> AppState \<times> effect list" where
  "handleTypingSound now s =
     (if now - lastTypeTime s > 100
      then (s\<lparr>lastTypeTime := now\<rparr>, [PlaySound (ascii ''typing'')])
      else (s, []))"

text \<open>
  A sequence of keystrokes, each with the clock value it reads: the timestamps at which
  the sound was played, and the state afterwards.
\<close>

fun keystrokes :: "AppState \<Rightarrow> int list \<Rightarrow> int list" where
  "keystrokes s [] = []"
| "keystrokes s (t # ts) =
     (case handleTypingSound t s of
        (s', es) \<Rightarrow> (if es = [] then [] else [t]) @ keystrokes s' ts)"

fun afterKeystrokes :: "AppState \<Rightarrow> int list \<Rightarrow> AppState" where
  "afterKeystrokes s [] = s"
| "afterKeystrokes s (t # ts) = afterKeystrokes (fst (handleTypingSound t s)) ts"

section \<open>Submitting a judgment\<close>

definition defaultCatName :: jsstring where
  "defaultCatName = [0x55B5, 0x55B5, 0x8FA9, 0x624B]"

definition defaultDogName :: jsstring where
  "defaultDogName = [0x6C6A, 0x6C6A, 0x8FA9, 0x624B]"

definition judgeAlert :: jsstring where
  "judgeAlert = [0x6CD5, 0x5B98, 0x6B63, 0x5728, 0x6253, 0x76F9, 0xFF0C, 0x8BF7, 0x91CD,
                 0x8BD5, 0x3002]"

text \<open>
  The state in which \<open>getJudgment\<close> is awaited, or \<open>None\<close> when the guard on the trimmed
  arguments returns first.
\<close>

definition handleJudgeClick_pending :: "AppState \<Rightarrow> AppState option" where
  "handleJudgeClick_pending s =
     (if \<not> truthy (trim (catArg s)) \<or> \<not> truthy (trim (dogArg s)) then None
      else Some (s\<lparr>isJudging := True, verdict := None\<rparr>))"

definition handleJudgeClick :: "Services \<Rightarrow> AppState \<Rightarrow> AppState \<times> effect list" where
  "handleJudgeClick env s =
     (case handleJudgeClick_pending s of
        None \<Rightarrow> (s, [])
      | Some s1 \<Rightarrow>
          (let effectiveCatName = js_or (catName s) defaultCatName;
               effectiveDogName = js_or (dogName s) defaultDogName;
               before = [PlaySound (ascii ''gavel''),
                         GetJudgment (catArg s) (dogArg s) effectiveCatName effectiveDogName
                           (history s)]
           in case getJudgment env (catArg s) (dogArg s) effectiveCatName effectiveDogName
                     (history s) of
                Inr result \<Rightarrow> (s1\<lparr>verdict := Some result, isJudging := False\<rparr>, before)
              | Inl e \<Rightarrow> (s1\<lparr>isJudging := False\<rparr>, before @ [ConsoleError, Alert judgeAlert])))"

fun judgmentCalls :: "effect list \<Rightarrow> effect list" where
  "judgmentCalls [] = []"
| "judgmentCalls (GetJudgment a b c d h # es) = GetJudgment a b c d h # judgmentCalls es"
| "judgmentCalls (e # es) = judgmentCalls es"

text \<open>The names passed by the judgment calls in a log.\<close>

fun judgmentNames :: "effect list \<Rightarrow> (jsstring \<times> jsstring) list" where
  "judgmentNames [] = []"
| "judgmentNames (GetJudgment a b c d h # es) = (c, d) # judgmentNames es"
| "judgmentNames (e # es) = judgmentNames es"

section \<open>What the page renders (src/App.tsx, the returned JSX)\<close>

text \<open>
  The accept and appeal buttons are inside \<open>{verdict && (...)}\<close>; the judge button is
  inside \<open>{!verdict && (...)}\<close> and carries
  \<open>disabled={isJudging || !catArg || !dogArg}\<close>.
\<close>

definition verdictControlsShown :: "AppState \<Rightarrow> bool" where
  "verdictControlsShown s \<longleftrightarrow> verdict s \<noteq> None"

definition judgeButtonEnabled :: "AppState \<Rightarrow> bool" where
  "judgeButtonEnabled s \<longleftrightarrow>
     verdict s = None \<and> \<not> (isJudging s \<or> \<not> truthy (catArg s) \<or> \<not> truthy (dogArg s))"

section \<open>Example inputs\<close>

definition exampleVerdict :: Verdict where
  "exampleVerdict =
     \<lparr>catPercentage = 60, dogPercentage = 40,
      reasoning = ascii ''the box was there first'', solution = ascii ''share the box''\<rparr>"

definition exampleRound :: CaseRound where
  "exampleRound =
     \<lparr>roundNumber = 1, r_catArg = ascii ''mine'', r_dogArg = ascii ''ours'',
      r_verdict = exampleVerdict\<rparr>"

definition argumentsEntered :: AppState where
  "argumentsEntered =
     initialState\<lparr>catArg := ascii ''the box is mine'', dogArg := ascii ''I share everything'',
                  catName := ascii ''Tom''\<rparr>"

definition verdictShown :: AppState where
  "verdictShown = argumentsEntered\<lparr>verdict := Some exampleVerdict\<rparr>"

text \<open>A verdict shown in the third round, after two appeals.\<close>

definition thirdRoundShown :: AppState where
  "thirdRoundShown =
     verdictShown\<lparr>history := [exampleRound, exampleRound\<lparr>roundNumber := 2\<rparr>]\<rparr>"

definition exampleImages :: CharacterImages where
  "exampleImages =
     \<lparr>judge = Some (ascii ''J''), catDebater = Some (ascii ''C''),
      dogDebater = Some (ascii ''D'')\<rparr>"

text \<open>Services that always answer: an empty cache, an image, a verdict.\<close>

definition servicesOk :: Services where
  "servicesOk =
     \<lparr>loadImagesFromDB = (\<lambda>k. Inr None),
      generateCharacterImage = (\<lambda>p. Inr (Some (ascii ''img''))),
      saveImagesToDB = (\<lambda>k r. Inr ()),
      getJudgment = (\<lambda>a b c d h. Inr exampleVerdict)\<rparr>"

text \<open>Services that always reject.\<close>

definition servicesDown :: Services where
  "servicesDown =
     \<lparr>loadImagesFromDB = (\<lambda>k. Inl (JsError (ascii ''db''))),
      generateCharacterImage = (\<lambda>p. Inl (JsError (ascii ''api''))),
      saveImagesToDB = (\<lambda>k r. Inl (JsError (ascii ''db''))),
      getJudgment = (\<lambda>a b c d h. Inl (JsError (ascii ''api'')))\<rparr>"

text \<open>The cache holds all three images; the cache holds two; the cache read rejects.\<close>

definition servicesCached :: Services where
  "servicesCached = servicesOk\<lparr>loadImagesFromDB := (\<lambda>k. Inr (Some exampleImages))\<rparr>"

definition servicesPartial :: Services where
  "servicesPartial =
     servicesOk\<lparr>loadImagesFromDB := (\<lambda>k. Inr (Some (exampleImages\<lparr>dogDebater := None\<rparr>)))\<rparr>"

definition servicesDbBroken :: Services where
  "servicesDbBroken = servicesOk\<lparr>loadImagesFromDB := (\<lambda>k. Inl (JsError (ascii ''db'')))\<rparr>"

text \<open>Only the generation of the dog debater rejects.\<close>

definition servicesDogFails :: Services where
  "servicesDogFails =
     servicesOk\<lparr>generateCharacterImage :=
       (\<lambda>p. if p = CharacterPrompts DOG_DEBATER then Inl (JsError (ascii ''api''))
            else Inr (Some (ascii ''img'')))\<rparr>"

section \<open>Theorems\<close>

subsection \<open>Auxiliary facts\<close>

lemma dropWhile_all_iff: "(\<forall>x \<in> set (dropWhile P xs). P x) \<longleftrightarrow> (\<forall>x \<in> set xs. P x)"
  by (induction xs) auto

lemma trim_empty_iff: "trim s = [] \<longleftrightarrow> list_all isWhiteSpace s"
  by (simp add: trim_def dropWhile_all_iff list_all_iff)

lemma js_or_eq: "js_or a b = (if a = [] then b else a)"
  by (simp add: js_or_def truthy_def)

lemma CharacterPrompts_eq_iff: "CharacterPrompts a = CharacterPrompts b \<longleftrightarrow> a = b"
  by (cases a; cases b) (simp_all add: CharacterPrompts.simps ascii_def)

lemma pending_Some:
  "\<not> list_all isWhiteSpace (catArg s) \<Longrightarrow> \<not> list_all isWhiteSpace (dogArg s) \<Longrightarrow>
   handleJudgeClick_pending s = Some (s\<lparr>isJudging := True, verdict := None\<rparr>)"
  by (simp add: handleJudgeClick_pending_def truthy_def trim_empty_iff)

lemma pending_None:
  "list_all isWhiteSpace (catArg s) \<or> list_all isWhiteSpace (dogArg s) \<Longrightarrow>
   handleJudgeClick_pending s = None"
  by (auto simp: handleJudgeClick_pending_def truthy_def trim_empty_iff)

lemma generateImages_calls:
  "generationCalls (snd (generateImages env s)) =
     [CharacterPrompts JUDGE, CharacterPrompts CAT_DEBATER, CharacterPrompts DOG_DEBATER]"
  by (simp add: generateImages_def Let_def split: sum.splits)

lemma generateImages_success:
  assumes "generateCharacterImage env (CharacterPrompts JUDGE) = Inr j"
    and "generateCharacterImage env (CharacterPrompts CAT_DEBATER) = Inr c"
    and "generateCharacterImage env (CharacterPrompts DOG_DEBATER) = Inr d"
  shows "cacheWrites (snd (generateImages env s)) =
           [(STORAGE_KEY, \<lparr>judge = j, catDebater = c, dogDebater = d\<rparr>)]
         \<and> images (fst (generateImages env s)) = \<lparr>judge = j, catDebater = c, dogDebater = d\<rparr>
         \<and> loadingImages (fst (generateImages env s)) = False"
  using assms by (simp add: generateImages_def Let_def split: sum.splits)

lemma generateImages_failure:
  assumes "isl (generateCharacterImage env (CharacterPrompts JUDGE))
         \<or> isl (generateCharacterImage env (CharacterPrompts CAT_DEBATER))
         \<or> isl (generateCharacterImage env (CharacterPrompts DOG_DEBATER))"
  shows "generateImages env s =
           (s\<lparr>loadingImages := False\<rparr>,
            [GenerateCharacterImage (CharacterPrompts JUDGE),
             GenerateCharacterImage (CharacterPrompts CAT_DEBATER),
             GenerateCharacterImage (CharacterPrompts DOG_DEBATER),
             ConsoleError])"
  using assms
  by (cases "generateCharacterImage env (CharacterPrompts JUDGE)";
      cases "generateCharacterImage env (CharacterPrompts CAT_DEBATER)";
      cases "generateCharacterImage env (CharacterPrompts DOG_DEBATER)")
    (simp_all add: generateImages_def Let_def)

lemma generateImages_load_irrelevant:
  "generateImages (env\<lparr>loadImagesFromDB := f\<rparr>) s = generateImages env s"
  by (simp add: generateImages_def Let_def split: sum.splits)

lemma generateImages_no_warn: "ConsoleWarn \<notin> set (snd (generateImages env s))"
  by (simp add: generateImages_def Let_def split: sum.splits)

lemma loadImages_miss:
  assumes "loadImagesFromDB env STORAGE_KEY = Inr None
         \<or> (\<exists>c. loadImagesFromDB env STORAGE_KEY = Inr (Some c) \<and> \<not> allPresent c)"
  shows "loadImages env s = apsnd ((@) [LoadImagesFromDB STORAGE_KEY]) (generateImages env s)"
  using assms by (auto simp: loadImages_def)

lemma allPresent_iff:
  "allPresent c \<longleftrightarrow>
     judge c \<notin> {None, Some []} \<and> catDebater c \<notin> {None, Some []}
     \<and> dogDebater c \<notin> {None, Some []}"
proof -
  have "truthyOpt x \<longleftrightarrow> x \<notin> {None, Some []}" for x
    by (cases x) (simp_all add: truthy_def)
  then show ?thesis by (simp add: allPresent_def)
qed

lemma entered_not_blank:
  "\<not> list_all isWhiteSpace (catArg argumentsEntered)"
  "\<not> list_all isWhiteSpace (dogArg argumentsEntered)"
  by (simp_all add: argumentsEntered_def initialState_def ascii_def isWhiteSpace_def)

subsection \<open>Appeal\<close>

text \<open>
  C1. In a state with a verdict, \<open>handleAppeal\<close> appends exactly one round to the
  history; its \<open>roundNumber\<close> is the old history length plus one and its arguments and
  verdict are the current ones; the current arguments and verdict are then cleared. In a
  state without a verdict nothing changes and nothing else happens.
\<close>

theorem handleAppeal_appends_round:
  "(\<forall>v. verdict s = Some v \<longrightarrow>
      history (fst (handleAppeal s)) =
        history s @ [\<lparr>roundNumber = length (history s) + 1,
                       r_catArg = catArg s, r_dogArg = dogArg s, r_verdict = v\<rparr>]
      \<and> length (history (fst (handleAppeal s))) = length (history s) + 1
      \<and> catArg (fst (handleAppeal s)) = []
      \<and> dogArg (fst (handleAppeal s)) = []
      \<and> verdict (fst (handleAppeal s)) = None)
   \<and> (verdict s = None \<longrightarrow> handleAppeal s = (s, []))"
  by (simp add: handleAppeal_def Let_def)

theorem handleAppeal_appends_round_witness:
  "verdict verdictShown = Some exampleVerdict
   \<and> history (fst (handleAppeal verdictShown)) =
       [\<lparr>roundNumber = 1, r_catArg = ascii ''the box is mine'',
         r_dogArg = ascii ''I share everything'', r_verdict = exampleVerdict\<rparr>]
   \<and> length (history (fst (handleAppeal verdictShown))) = 1
   \<and> catArg (fst (handleAppeal verdictShown)) = []
   \<and> dogArg (fst (handleAppeal verdictShown)) = []
   \<and> verdict (fst (handleAppeal verdictShown)) = None
   \<and> verdict initialState = None
   \<and> handleAppeal initialState = (initialState, [])"
  using handleAppeal_appends_round [of verdictShown]
    handleAppeal_appends_round [of initialState]
  by (simp add: verdictShown_def argumentsEntered_def initialState_def)

text \<open>
  C9. \<open>handleAppeal\<close> changes only the history, the verdict and the two argument texts:
  the debater names, the images, the image-loading flag and the judging flag (and the
  typing timestamp) are what they were, with or without a verdict.
\<close>

theorem handleAppeal_frame:
  "catName (fst (handleAppeal s)) = catName s
   \<and> dogName (fst (handleAppeal s)) = dogName s
   \<and> images (fst (handleAppeal s)) = images s
   \<and> loadingImages (fst (handleAppeal s)) = loadingImages s
   \<and> isJudging (fst (handleAppeal s)) = isJudging s
   \<and> lastTypeTime (fst (handleAppeal s)) = lastTypeTime s"
  by (simp add: handleAppeal_def Let_def split: option.split)

subsection \<open>Accept\<close>

text \<open>
  C3. From a state with a verdict (the only states in which the accept button is
  rendered), \<open>handleAcceptVerdict\<close> empties the history, whatever its length, and clears
  both names, the verdict and both argument texts.
\<close>

theorem handleAcceptVerdict_resets:
  "verdictControlsShown s \<Longrightarrow>
   history (fst (handleAcceptVerdict s)) = []
   \<and> length (history (fst (handleAcceptVerdict s))) = 0
   \<and> catName (fst (handleAcceptVerdict s)) = []
   \<and> dogName (fst (handleAcceptVerdict s)) = []
   \<and> verdict (fst (handleAcceptVerdict s)) = None
   \<and> catArg (fst (handleAcceptVerdict s)) = []
   \<and> dogArg (fst (handleAcceptVerdict s)) = []"
  by (simp add: handleAcceptVerdict_def)

theorem handleAcceptVerdict_resets_witness:
  "verdictControlsShown thirdRoundShown
   \<and> length (history thirdRoundShown) = 2
   \<and> catName thirdRoundShown = ascii ''Tom''
   \<and> history (fst (handleAcceptVerdict thirdRoundShown)) = []
   \<and> catName (fst (handleAcceptVerdict thirdRoundShown)) = []
   \<and> dogName (fst (handleAcceptVerdict thirdRoundShown)) = []
   \<and> verdict (fst (handleAcceptVerdict thirdRoundShown)) = None
   \<and> catArg (fst (handleAcceptVerdict thirdRoundShown)) = []
   \<and> dogArg (fst (handleAcceptVerdict thirdRoundShown)) = []"
proof -
  have shown: "verdictControlsShown thirdRoundShown"
    by (simp add: verdictControlsShown_def thirdRoundShown_def verdictShown_def)
  have before: "length (history thirdRoundShown) = 2" "catName thirdRoundShown = ascii ''Tom''"
    by (simp_all add: thirdRoundShown_def verdictShown_def argumentsEntered_def)
  from shown before handleAcceptVerdict_resets [OF shown] show ?thesis
    by simp
qed

subsection \<open>Startup\<close>

text \<open>
  C4. The generation calls of \<open>loadImages\<close> are decided by the cache load. When it
  returns a record whose three images are present (neither \<open>null\<close> nor the empty string,
  which the test \<open>cached.judge && ...\<close> takes for absent), no generation call is made,
  nothing is saved, and the cached record becomes the image state. When it returns no
  record, or one with an image missing, exactly three generation calls are made, with the
  prompts of the judge, the cat debater and the dog debater; when all three resolve, the
  record of the three results becomes the image state and is saved under the storage key
  in one call.
\<close>

theorem loadImages_generation_calls:
  fixes env :: Services and s :: AppState
  defines "r \<equiv> loadImages env s"
  shows "(\<forall>c. loadImagesFromDB env STORAGE_KEY = Inr (Some c)
            \<and> judge c \<notin> {None, Some []} \<and> catDebater c \<notin> {None, Some []}
            \<and> dogDebater c \<notin> {None, Some []} \<longrightarrow>
          generationCalls (snd r) = [] \<and> images (fst r) = c \<and> \<not> loadingImages (fst r)
          \<and> cacheWrites (snd r) = [])
     \<and> (loadImagesFromDB env STORAGE_KEY = Inr None
          \<or> (\<exists>c. loadImagesFromDB env STORAGE_KEY = Inr (Some c)
                \<and> (judge c \<in> {None, Some []} \<or> catDebater c \<in> {None, Some []}
                    \<or> dogDebater c \<in> {None, Some []})) \<longrightarrow>
          generationCalls (snd r) =
            [CharacterPrompts JUDGE, CharacterPrompts CAT_DEBATER, CharacterPrompts DOG_DEBATER]
          \<and> length (generationCalls (snd r)) = 3
          \<and> (\<forall>j c d. generateCharacterImage env (CharacterPrompts JUDGE) = Inr j
                \<and> generateCharacterImage env (CharacterPrompts CAT_DEBATER) = Inr c
                \<and> generateCharacterImage env (CharacterPrompts DOG_DEBATER) = Inr d \<longrightarrow>
                cacheWrites (snd r) =
                  [(STORAGE_KEY, \<lparr>judge = j, catDebater = c, dogDebater = d\<rparr>)]
                \<and> images (fst r) = \<lparr>judge = j, catDebater = c, dogDebater = d\<rparr>
                \<and> \<not> loadingImages (fst r)))"
proof (intro conjI allI impI)
  fix c
  assume "loadImagesFromDB env STORAGE_KEY = Inr (Some c)
            \<and> judge c \<notin> {None, Some []} \<and> catDebater c \<notin> {None, Some []}
            \<and> dogDebater c \<notin> {None, Some []}"
  then have hit: "loadImagesFromDB env STORAGE_KEY = Inr (Some c)" "allPresent c"
    by (simp_all add: allPresent_iff)
  then have "r = (s\<lparr>images := c, loadingImages := False\<rparr>, [LoadImagesFromDB STORAGE_KEY])"
    by (simp add: r_def loadImages_def)
  then show "generationCalls (snd r) = []" "images (fst r) = c" "\<not> loadingImages (fst r)"
    "cacheWrites (snd r) = []"
    by simp_all
next
  assume "loadImagesFromDB env STORAGE_KEY = Inr None
          \<or> (\<exists>c. loadImagesFromDB env STORAGE_KEY = Inr (Some c)
                \<and> (judge c \<in> {None, Some []} \<or> catDebater c \<in> {None, Some []}
                    \<or> dogDebater c \<in> {None, Some []}))"
  then have "loadImagesFromDB env STORAGE_KEY = Inr None
         \<or> (\<exists>c. loadImagesFromDB env STORAGE_KEY = Inr (Some c) \<and> \<not> allPresent c)"
    by (auto simp: allPresent_iff)
  then have r: "r = apsnd ((@) [LoadImagesFromDB STORAGE_KEY]) (generateImages env s)"
    unfolding r_def by (rule loadImages_miss)
  show calls: "generationCalls (snd r) =
      [CharacterPrompts JUDGE, CharacterPrompts CAT_DEBATER, CharacterPrompts DOG_DEBATER]"
    by (simp add: r generateImages_calls)
  then show "length (generationCalls (snd r)) = 3" by simp
  fix j c d
  assume "generateCharacterImage env (CharacterPrompts JUDGE) = Inr j
                \<and> generateCharacterImage env (CharacterPrompts CAT_DEBATER) = Inr c
                \<and> generateCharacterImage env (CharacterPrompts DOG_DEBATER) = Inr d"
  then have "cacheWrites (snd (generateImages env s)) =
           [(STORAGE_KEY, \<lparr>judge = j, catDebater = c, dogDebater = d\<rparr>)]
         \<and> images (fst (generateImages env s)) = \<lparr>judge = j, catDebater = c, dogDebater = d\<rparr>
         \<and> loadingImages (fst (generateImages env s)) = False"
    by (intro generateImages_success) simp_all
  then show "cacheWrites (snd r) = [(STORAGE_KEY, \<lparr>judge = j, catDebater = c, dogDebater = d\<rparr>)]"
    "images (fst r) = \<lparr>judge = j, catDebater = c, dogDebater = d\<rparr>" "\<not> loadingImages (fst r)"
    by (simp_all add: r)
qed

theorem loadImages_generation_calls_witness:
  "generationCalls (snd (loadImages servicesCached initialState)) = []
   \<and> images (fst (loadImages servicesCached initialState)) = exampleImages
   \<and> \<not> loadingImages (fst (loadImages servicesCached initialState))
   \<and> length (generationCalls (snd (loadImages servicesOk initialState))) = 3
   \<and> cacheWrites (snd (loadImages servicesOk initialState)) =
       [(STORAGE_KEY, \<lparr>judge = Some (ascii ''img''), catDebater = Some (ascii ''img''),
                       dogDebater = Some (ascii ''img'')\<rparr>)]
   \<and> images (fst (loadImages servicesOk initialState)) =
       \<lparr>judge = Some (ascii ''img''), catDebater = Some (ascii ''img''),
        dogDebater = Some (ascii ''img'')\<rparr>
   \<and> generationCalls (snd (loadImages servicesPartial initialState)) =
       [CharacterPrompts JUDGE, CharacterPrompts CAT_DEBATER, CharacterPrompts DOG_DEBATER]"
  using loadImages_generation_calls [where env = servicesCached and s = initialState]
    loadImages_generation_calls [where env = servicesOk and s = initialState]
    loadImages_generation_calls [where env = servicesPartial and s = initialState]
  by (simp add: servicesCached_def servicesPartial_def servicesOk_def exampleImages_def
      ascii_def)

text \<open>
  C6. When the cache load rejects, \<open>loadImages\<close> goes on as on an absent record: the
  resulting state is the same, and so is the log once the console warning is taken out;
  in particular the three generation calls are made.
\<close>

theorem loadImages_read_error_is_miss:
  assumes "loadImagesFromDB env STORAGE_KEY = Inl e"
  shows "fst (loadImages env s) = fst (loadImages (env\<lparr>loadImagesFromDB := (\<lambda>k. Inr None)\<rparr>) s)
     \<and> filter (\<lambda>x. x \<noteq> ConsoleWarn) (snd (loadImages env s)) =
         snd (loadImages (env\<lparr>loadImagesFromDB := (\<lambda>k. Inr None)\<rparr>) s)
     \<and> snd (loadImages env s) =
         [LoadImagesFromDB STORAGE_KEY, ConsoleWarn] @ snd (generateImages env s)
     \<and> generationCalls (snd (loadImages env s)) =
         [CharacterPrompts JUDGE, CharacterPrompts CAT_DEBATER, CharacterPrompts DOG_DEBATER]"
proof -
  have "filter (\<lambda>x. x \<noteq> ConsoleWarn) (snd (generateImages env s)) = snd (generateImages env s)"
    using generateImages_no_warn [of env s] by (auto simp: filter_id_conv)
  then show ?thesis
    using assms
    by (simp add: loadImages_def generateImages_load_irrelevant generateImages_calls)
qed

theorem loadImages_read_error_is_miss_witness:
  "loadImagesFromDB servicesDbBroken STORAGE_KEY = Inl (JsError (ascii ''db''))
   \<and> fst (loadImages servicesDbBroken initialState) = fst (loadImages servicesOk initialState)
   \<and> filter (\<lambda>x. x \<noteq> ConsoleWarn) (snd (loadImages servicesDbBroken initialState)) =
       snd (loadImages servicesOk initialState)
   \<and> generationCalls (snd (loadImages servicesDbBroken initialState)) =
       [CharacterPrompts JUDGE, CharacterPrompts CAT_DEBATER, CharacterPrompts DOG_DEBATER]"
proof -
  have rejects: "loadImagesFromDB servicesDbBroken STORAGE_KEY = Inl (JsError (ascii ''db''))"
    by (simp add: servicesDbBroken_def)
  have absent: "servicesDbBroken\<lparr>loadImagesFromDB := (\<lambda>k. Inr None)\<rparr> = servicesOk"
    by (simp add: servicesDbBroken_def servicesOk_def)
  from rejects loadImages_read_error_is_miss [OF rejects, of initialState, unfolded absent]
  show ?thesis by blast
qed

text \<open>
  C7. When the cache did not hold all three images and at least one of the three
  generation calls rejects, the image state is left as it was, nothing is saved, and the
  loading flag is cleared. The result is the same as when all three calls reject.
\<close>

theorem generation_all_or_nothing:
  fixes env :: Services and s :: AppState
  defines "r \<equiv> loadImages env s"
  assumes miss: "\<not> (\<exists>c. loadImagesFromDB env STORAGE_KEY = Inr (Some c) \<and> allPresent c)"
    and fail: "isl (generateCharacterImage env (CharacterPrompts JUDGE))
         \<or> isl (generateCharacterImage env (CharacterPrompts CAT_DEBATER))
         \<or> isl (generateCharacterImage env (CharacterPrompts DOG_DEBATER))"
  shows "images (fst r) = images s
     \<and> images (fst (loadImages env initialState)) =
         \<lparr>judge = None, catDebater = None, dogDebater = None\<rparr>
     \<and> cacheWrites (snd r) = []
     \<and> \<not> loadingImages (fst r)
     \<and> fst r = s\<lparr>loadingImages := False\<rparr>
     \<and> length (generationCalls (snd r)) = 3
     \<and> r = loadImages (env\<lparr>generateCharacterImage := (\<lambda>p. Inl e)\<rparr>) s"
proof -
  let ?down = "env\<lparr>generateCharacterImage := (\<lambda>p. Inl e)\<rparr>"
  have g: "generateImages env s = generateImages ?down s"
    using fail by (simp add: generateImages_failure)
  have l: "loadImagesFromDB ?down = loadImagesFromDB env" by simp
  have same: "r = loadImages ?down s"
    unfolding r_def loadImages_def l g ..
  have "fst (generateImages env s) = s\<lparr>loadingImages := False\<rparr>"
    "cacheWrites (snd (generateImages env s)) = []"
    using fail by (simp_all add: generateImages_failure)
  then have "fst r = s\<lparr>loadingImages := False\<rparr>" "cacheWrites (snd r) = []"
    "length (generationCalls (snd r)) = 3"
    using miss
    by (auto simp: r_def loadImages_def generateImages_calls split: sum.splits option.splits)
  moreover have "fst (loadImages env initialState) = initialState\<lparr>loadingImages := False\<rparr>"
    using miss fail
    by (auto simp: loadImages_def generateImages_failure split: sum.splits option.splits)
  then have "images (fst (loadImages env initialState)) =
      \<lparr>judge = None, catDebater = None, dogDebater = None\<rparr>"
    by (simp add: initialState_def)
  ultimately show ?thesis using same by simp
qed

theorem generation_all_or_nothing_witness:
  "images (fst (loadImages servicesDogFails initialState)) =
       \<lparr>judge = None, catDebater = None, dogDebater = None\<rparr>
   \<and> cacheWrites (snd (loadImages servicesDogFails initialState)) = []
   \<and> \<not> loadingImages (fst (loadImages servicesDogFails initialState))
   \<and> length (generationCalls (snd (loadImages servicesDogFails initialState))) = 3"
  using generation_all_or_nothing [where env = servicesDogFails and s = initialState]
  by (simp add: servicesDogFails_def servicesOk_def CharacterPrompts_eq_iff initialState_def)

subsection \<open>Submitting a judgment\<close>

text \<open>
  C2. When both argument texts contain a character that is not white space,
  \<open>handleJudgeClick\<close> sets the judging flag, calls \<open>getJudgment\<close> once with the two
  argument texts, the two display names (the default where a name is empty) and the whole
  history, and ends in exactly one of two ways: the verdict is the one returned, with no
  alert, or the call rejected, the verdict is absent and the alert was shown. Either way
  the judging flag ends false and the history and the argument texts are what they were.
\<close>

theorem handleJudgeClick_outcomes:
  fixes env :: Services and s :: AppState
  defines "r \<equiv> handleJudgeClick env s"
    and "cn \<equiv> (if catName s = [] then defaultCatName else catName s)"
    and "dn \<equiv> (if dogName s = [] then defaultDogName else dogName s)"
  assumes cat: "\<not> list_all isWhiteSpace (catArg s)"
    and dog: "\<not> list_all isWhiteSpace (dogArg s)"
  shows "(\<exists>s1. handleJudgeClick_pending s = Some s1 \<and> isJudging s1)
    \<and> judgmentCalls (snd r) = [GetJudgment (catArg s) (dogArg s) cn dn (history s)]
    \<and> (case getJudgment env (catArg s) (dogArg s) cn dn (history s) of
          Inr v \<Rightarrow> verdict (fst r) = Some v \<and> Alert judgeAlert \<notin> set (snd r)
        | Inl e \<Rightarrow> verdict (fst r) = None \<and> Alert judgeAlert \<in> set (snd r))
    \<and> ((verdict (fst r) \<noteq> None) \<noteq> (Alert judgeAlert \<in> set (snd r)))
    \<and> \<not> isJudging (fst r)
    \<and> history (fst r) = history s \<and> catArg (fst r) = catArg s \<and> dogArg (fst r) = dogArg s"
  using pending_Some [OF cat dog]
  by (simp add: r_def cn_def dn_def handleJudgeClick_def js_or_eq Let_def split: sum.splits)

theorem handleJudgeClick_outcomes_witness:
  "verdict (fst (handleJudgeClick servicesOk argumentsEntered)) = Some exampleVerdict
   \<and> Alert judgeAlert \<notin> set (snd (handleJudgeClick servicesOk argumentsEntered))
   \<and> \<not> isJudging (fst (handleJudgeClick servicesOk argumentsEntered))
   \<and> verdict (fst (handleJudgeClick servicesDown argumentsEntered)) = None
   \<and> Alert judgeAlert \<in> set (snd (handleJudgeClick servicesDown argumentsEntered))
   \<and> \<not> isJudging (fst (handleJudgeClick servicesDown argumentsEntered))
   \<and> judgmentCalls (snd (handleJudgeClick servicesDown argumentsEntered)) =
       [GetJudgment (ascii ''the box is mine'') (ascii ''I share everything'') (ascii ''Tom'')
          defaultDogName []]"
proof -
  have ok: "getJudgment servicesOk a b c d h = Inr exampleVerdict" for a b c d h
    by (simp add: servicesOk_def)
  have down: "getJudgment servicesDown a b c d h = Inl (JsError (ascii ''api''))" for a b c d h
    by (simp add: servicesDown_def)
  have fields: "catArg argumentsEntered = ascii ''the box is mine''"
    "dogArg argumentsEntered = ascii ''I share everything''"
    "catName argumentsEntered = ascii ''Tom''" "dogName argumentsEntered = []"
    "history argumentsEntered = []"
    by (simp_all add: argumentsEntered_def initialState_def)
  have tom: "ascii ''Tom'' \<noteq> []" by (simp add: ascii_def)
  from handleJudgeClick_outcomes [OF entered_not_blank, of servicesOk]
    handleJudgeClick_outcomes [OF entered_not_blank, of servicesDown]
  show ?thesis by (simp add: ok down fields tom)
qed

theorem handleJudgeClick_outcomes_counterexample:
  "catArg (initialState\<lparr>catArg := ascii ''meow'', dogArg := [0x0009, 0x000A]\<rparr>) \<noteq> []
   \<and> dogArg (initialState\<lparr>catArg := ascii ''meow'', dogArg := [0x0009, 0x000A]\<rparr>) \<noteq> []
   \<and> handleJudgeClick_pending
        (initialState\<lparr>catArg := ascii ''meow'', dogArg := [0x0009, 0x000A]\<rparr>) = None
   \<and> judgmentCalls (snd (handleJudgeClick servicesOk
        (initialState\<lparr>catArg := ascii ''meow'', dogArg := [0x0009, 0x000A]\<rparr>))) = []
   \<and> verdict (fst (handleJudgeClick servicesOk
        (initialState\<lparr>catArg := ascii ''meow'', dogArg := [0x0009, 0x000A]\<rparr>))) = None
   \<and> Alert judgeAlert \<notin> set (snd (handleJudgeClick servicesOk
        (initialState\<lparr>catArg := ascii ''meow'', dogArg := [0x0009, 0x000A]\<rparr>)))"
  by (simp add: handleJudgeClick_def handleJudgeClick_pending_def trim_def isWhiteSpace_def
      truthy_def ascii_def initialState_def)

text \<open>
  C5. The guard of \<open>handleJudgeClick\<close> is on the trimmed argument texts. When either
  text is empty or holds white space only, no judgment call is made and the state is
  unchanged; when both hold a character that is not white space, the submission
  proceeds: the judging flag is set, the gavel sounds and one judgment call is made.
\<close>

theorem handleJudgeClick_guard:
  "(list_all isWhiteSpace (catArg s) \<or> list_all isWhiteSpace (dogArg s) \<longrightarrow>
      handleJudgeClick env s = (s, []))
   \<and> (catArg s = [] \<or> dogArg s = [] \<longrightarrow> handleJudgeClick env s = (s, []))
   \<and> (\<not> list_all isWhiteSpace (catArg s) \<and> \<not> list_all isWhiteSpace (dogArg s) \<longrightarrow>
        handleJudgeClick_pending s = Some (s\<lparr>isJudging := True, verdict := None\<rparr>)
        \<and> length (judgmentCalls (snd (handleJudgeClick env s))) = 1
        \<and> PlaySound (ascii ''gavel'') \<in> set (snd (handleJudgeClick env s)))"
proof (intro conjI impI)
  assume "list_all isWhiteSpace (catArg s) \<or> list_all isWhiteSpace (dogArg s)"
  then show "handleJudgeClick env s = (s, [])"
    by (simp add: handleJudgeClick_def pending_None)
next
  assume "catArg s = [] \<or> dogArg s = []"
  then have "list_all isWhiteSpace (catArg s) \<or> list_all isWhiteSpace (dogArg s)"
    by auto
  then show "handleJudgeClick env s = (s, [])"
    by (simp add: handleJudgeClick_def pending_None)
next
  assume a: "\<not> list_all isWhiteSpace (catArg s) \<and> \<not> list_all isWhiteSpace (dogArg s)"
  then show "handleJudgeClick_pending s = Some (s\<lparr>isJudging := True, verdict := None\<rparr>)"
    by (simp add: pending_Some)
  from a show "length (judgmentCalls (snd (handleJudgeClick env s))) = 1"
    by (simp add: handleJudgeClick_def pending_Some Let_def split: sum.splits)
  from a show "PlaySound (ascii ''gavel'') \<in> set (snd (handleJudgeClick env s))"
    by (simp add: handleJudgeClick_def pending_Some Let_def split: sum.splits)
qed

theorem handleJudgeClick_guard_witness:
  "handleJudgeClick servicesOk initialState = (initialState, [])
   \<and> handleJudgeClick servicesOk (argumentsEntered\<lparr>dogArg := ascii ''  ''\<rparr>) =
       (argumentsEntered\<lparr>dogArg := ascii ''  ''\<rparr>, [])
   \<and> handleJudgeClick_pending argumentsEntered =
       Some (argumentsEntered\<lparr>isJudging := True, verdict := None\<rparr>)
   \<and> length (judgmentCalls (snd (handleJudgeClick servicesOk argumentsEntered))) = 1"
proof -
  have blank: "list_all isWhiteSpace (dogArg (argumentsEntered\<lparr>dogArg := ascii ''  ''\<rparr>))"
    by (simp add: ascii_def isWhiteSpace_def)
  have empty: "catArg initialState = []"
    by (simp add: initialState_def)
  from handleJudgeClick_guard [of initialState servicesOk]
    handleJudgeClick_guard [of "argumentsEntered\<lparr>dogArg := ascii ''  ''\<rparr>" servicesOk]
    handleJudgeClick_guard [of argumentsEntered servicesOk]
    blank empty entered_not_blank
  show ?thesis by blast
qed

theorem handleJudgeClick_guard_counterexample:
  "catArg (initialState\<lparr>catArg := [0x0020], dogArg := ascii ''woof''\<rparr>) \<noteq> []
   \<and> dogArg (initialState\<lparr>catArg := [0x0020], dogArg := ascii ''woof''\<rparr>) \<noteq> []
   \<and> judgeButtonEnabled (initialState\<lparr>catArg := [0x0020], dogArg := ascii ''woof''\<rparr>)
   \<and> handleJudgeClick servicesOk (initialState\<lparr>catArg := [0x0020], dogArg := ascii ''woof''\<rparr>) =
       (initialState\<lparr>catArg := [0x0020], dogArg := ascii ''woof''\<rparr>, [])"
  by (simp add: handleJudgeClick_def handleJudgeClick_pending_def trim_def isWhiteSpace_def
      truthy_def ascii_def initialState_def judgeButtonEnabled_def)

text \<open>
  C10. In a submission that proceeds, the judgment call receives the cat name, or the
  fixed default name of the cat side when the cat name is the empty string, and likewise
  for the dog side. The stored names are not changed by \<open>handleJudgeClick\<close>.
\<close>

theorem handleJudgeClick_default_names:
  "(\<not> list_all isWhiteSpace (catArg s) \<and> \<not> list_all isWhiteSpace (dogArg s) \<longrightarrow>
      judgmentNames (snd (handleJudgeClick env s)) =
        [(if catName s = [] then [0x55B5, 0x55B5, 0x8FA9, 0x624B] else catName s,
          if dogName s = [] then [0x6C6A, 0x6C6A, 0x8FA9, 0x624B] else dogName s)])
   \<and> catName (fst (handleJudgeClick env s)) = catName s
   \<and> dogName (fst (handleJudgeClick env s)) = dogName s"
proof (intro conjI impI)
  assume "\<not> list_all isWhiteSpace (catArg s) \<and> \<not> list_all isWhiteSpace (dogArg s)"
  then show "judgmentNames (snd (handleJudgeClick env s)) =
        [(if catName s = [] then [0x55B5, 0x55B5, 0x8FA9, 0x624B] else catName s,
          if dogName s = [] then [0x6C6A, 0x6C6A, 0x8FA9, 0x624B] else dogName s)]"
    by (simp add: handleJudgeClick_def pending_Some js_or_eq defaultCatName_def
        defaultDogName_def Let_def split: sum.splits)
next
  show "catName (fst (handleJudgeClick env s)) = catName s"
    by (simp add: handleJudgeClick_def handleJudgeClick_pending_def Let_def
        split: sum.splits)
  show "dogName (fst (handleJudgeClick env s)) = dogName s"
    by (simp add: handleJudgeClick_def handleJudgeClick_pending_def Let_def
        split: sum.splits)
qed

theorem handleJudgeClick_default_names_witness:
  "judgmentNames (snd (handleJudgeClick servicesOk argumentsEntered)) =
     [(ascii ''Tom'', [0x6C6A, 0x6C6A, 0x8FA9, 0x624B])]
   \<and> judgmentNames (snd (handleJudgeClick servicesDown
        (argumentsEntered\<lparr>catName := [], dogName := ascii ''Rex''\<rparr>))) =
     [([0x55B5, 0x55B5, 0x8FA9, 0x624B], ascii ''Rex'')]
   \<and> dogName (fst (handleJudgeClick servicesOk argumentsEntered)) = []"
proof -
  have names: "catName argumentsEntered = ascii ''Tom''" "dogName argumentsEntered = []"
    "ascii ''Tom'' \<noteq> []" "ascii ''Rex'' \<noteq> []"
    by (simp_all add: argumentsEntered_def initialState_def ascii_def)
  have args: "\<not> list_all isWhiteSpace
        (catArg (argumentsEntered\<lparr>catName := [], dogName := ascii ''Rex''\<rparr>))"
    "\<not> list_all isWhiteSpace
        (dogArg (argumentsEntered\<lparr>catName := [], dogName := ascii ''Rex''\<rparr>))"
    using entered_not_blank by simp_all
  from handleJudgeClick_default_names [of argumentsEntered servicesOk]
    handleJudgeClick_default_names
      [of "argumentsEntered\<lparr>catName := [], dogName := ascii ''Rex''\<rparr>" servicesDown]
  show ?thesis using entered_not_blank args by (simp add: names)
qed

subsection \<open>Typing sound\<close>

lemma keystrokes_Cons:
  "keystrokes s (t # ts) =
     (if 100 < t - lastTypeTime s then t # keystrokes (s\<lparr>lastTypeTime := t\<rparr>) ts
      else keystrokes s ts)"
  by (simp add: handleTypingSound_def)

lemma afterKeystrokes_Cons:
  "afterKeystrokes s (t # ts) =
     (if 100 < t - lastTypeTime s then afterKeystrokes (s\<lparr>lastTypeTime := t\<rparr>) ts
      else afterKeystrokes s ts)"
  by (simp add: handleTypingSound_def)

declare keystrokes.simps(2) [simp del] afterKeystrokes.simps(2) [simp del]

lemma keystrokes_after_last: "p \<in> set (keystrokes s ts) \<Longrightarrow> 100 < p - lastTypeTime s"
proof (induction ts arbitrary: s)
  case Nil
  then show ?case by simp
next
  case (Cons t ts)
  show ?case
  proof (cases "100 < t - lastTypeTime s")
    case True
    with Cons.prems have "p = t \<or> p \<in> set (keystrokes (s\<lparr>lastTypeTime := t\<rparr>) ts)"
      by (simp add: keystrokes_Cons)
    then show ?thesis
    proof
      assume "p = t"
      with True show ?thesis by simp
    next
      assume "p \<in> set (keystrokes (s\<lparr>lastTypeTime := t\<rparr>) ts)"
      then have "100 < p - lastTypeTime (s\<lparr>lastTypeTime := t\<rparr>)"
        by (rule Cons.IH)
      with True show ?thesis by simp
    qed
  next
    case False
    with Cons.prems have "p \<in> set (keystrokes s ts)"
      by (simp add: keystrokes_Cons)
    then show ?thesis by (rule Cons.IH)
  qed
qed

lemma keystrokes_spaced: "sorted_wrt (\<lambda>a b. 100 < b - a) (keystrokes s ts)"
proof (induction ts arbitrary: s)
  case Nil
  then show ?case by simp
next
  case (Cons t ts)
  show ?case
  proof (cases "100 < t - lastTypeTime s")
    case True
    have "100 < p - t" if "p \<in> set (keystrokes (s\<lparr>lastTypeTime := t\<rparr>) ts)" for p
      using keystrokes_after_last [OF that] by simp
    with True Cons.IH [of "s\<lparr>lastTypeTime := t\<rparr>"] show ?thesis
      by (simp add: keystrokes_Cons)
  next
    case False
    with Cons.IH [of s] show ?thesis by (simp add: keystrokes_Cons)
  qed
qed

lemma afterKeystrokes_last:
  "lastTypeTime (afterKeystrokes s ts) = last (lastTypeTime s # keystrokes s ts)"
proof (induction ts arbitrary: s)
  case Nil
  then show ?case by simp
next
  case (Cons t ts)
  show ?case
  proof (cases "100 < t - lastTypeTime s")
    case True
    with Cons.IH [of "s\<lparr>lastTypeTime := t\<rparr>"] show ?thesis
      by (simp add: keystrokes_Cons afterKeystrokes_Cons)
  next
    case False
    with Cons.IH [of s] show ?thesis
      by (simp add: keystrokes_Cons afterKeystrokes_Cons)
  qed
qed

lemma keystrokes_snoc:
  "keystrokes s (ts @ [t]) =
     keystrokes s ts @ (if 100 < t - lastTypeTime (afterKeystrokes s ts) then [t] else [])"
proof (induction ts arbitrary: s)
  case Nil
  then show ?case by (simp add: keystrokes_Cons)
next
  case (Cons u ts)
  show ?case
  proof (cases "100 < u - lastTypeTime s")
    case True
    with Cons.IH [of "s\<lparr>lastTypeTime := u\<rparr>"] show ?thesis
      by (simp only: append_Cons keystrokes_Cons afterKeystrokes_Cons if_True)
  next
    case False
    with Cons.IH [of s] show ?thesis
      by (simp only: append_Cons keystrokes_Cons afterKeystrokes_Cons if_False)
  qed
qed

text \<open>
  C8. A keystroke plays the typing sound exactly when more than 100 ms lie between its
  clock value and the stored timestamp, and the timestamp is set to the clock value
  exactly when the sound plays. Over a sequence of keystrokes the stored timestamp is
  that of the last sound played (or the initial one), the next keystroke plays exactly
  when it is more than 100 ms after it, and any two sounds played are more than 100 ms
  apart.
\<close>

theorem typing_sound_throttled:
  "snd (handleTypingSound now s) =
     (if 100 < now - lastTypeTime s then [PlaySound (ascii ''typing'')] else [])
   \<and> lastTypeTime (fst (handleTypingSound now s)) =
       (if 100 < now - lastTypeTime s then now else lastTypeTime s)
   \<and> keystrokes s (ts @ [now]) =
       keystrokes s ts
       @ (if 100 < now - last (lastTypeTime s # keystrokes s ts) then [now] else [])
   \<and> lastTypeTime (afterKeystrokes s ts) = last (lastTypeTime s # keystrokes s ts)
   \<and> (\<forall>i j. i < j \<and> j < length (keystrokes s ts) \<longrightarrow>
         100 < keystrokes s ts ! j - keystrokes s ts ! i)"
proof (intro conjI allI impI)
  show "snd (handleTypingSound now s) =
     (if 100 < now - lastTypeTime s then [PlaySound (ascii ''typing'')] else [])"
    by (simp add: handleTypingSound_def)
  show "lastTypeTime (fst (handleTypingSound now s)) =
       (if 100 < now - lastTypeTime s then now else lastTypeTime s)"
    by (simp add: handleTypingSound_def)
  show "keystrokes s (ts @ [now]) =
       keystrokes s ts
       @ (if 100 < now - last (lastTypeTime s # keystrokes s ts) then [now] else [])"
    by (simp only: keystrokes_snoc afterKeystrokes_last)
  show "lastTypeTime (afterKeystrokes s ts) = last (lastTypeTime s # keystrokes s ts)"
    by (rule afterKeystrokes_last)
next
  fix i j
  assume "i < j \<and> j < length (keystrokes s ts)"
  with keystrokes_spaced [of s ts]
  show "100 < keystrokes s ts ! j - keystrokes s ts ! i"
    by (simp add: sorted_wrt_iff_nth_less)
qed

theorem typing_sound_throttled_witness:
  "keystrokes initialState [1000, 1050, 1100, 1101, 1300] = [1000, 1101, 1300]
   \<and> snd (handleTypingSound 1100 (initialState\<lparr>lastTypeTime := 1000\<rparr>)) = []
   \<and> snd (handleTypingSound 1101 (initialState\<lparr>lastTypeTime := 1000\<rparr>)) =
       [PlaySound (ascii ''typing'')]
   \<and> lastTypeTime (fst (handleTypingSound 1101 (initialState\<lparr>lastTypeTime := 1000\<rparr>))) = 1101
   \<and> lastTypeTime (afterKeystrokes initialState [1000, 1050, 1100, 1101]) = 1101
   \<and> [1000, 1101, 1300] ! 1 - [1000, 1101, 1300] ! 0 = (101 :: int)"
proof -
  have zero: "lastTypeTime initialState = 0"
    by (simp add: initialState_def)
  have a: "keystrokes initialState [1000] = [1000]"
    using typing_sound_throttled [of 1000 initialState "[]"] by (simp add: zero)
  have b: "keystrokes initialState [1000, 1050] = [1000]"
    using typing_sound_throttled [of 1050 initialState "[1000]"] by (simp add: zero a)
  have c: "keystrokes initialState [1000, 1050, 1100] = [1000]"
    using typing_sound_throttled [of 1100 initialState "[1000, 1050]"] by (simp add: zero b)
  have d: "keystrokes initialState [1000, 1050, 1100, 1101] = [1000, 1101]"
    using typing_sound_throttled [of 1101 initialState "[1000, 1050, 1100]"]
    by (simp add: zero c)
  have e: "keystrokes initialState [1000, 1050, 1100, 1101, 1300] = [1000, 1101, 1300]"
    using typing_sound_throttled [of 1300 initialState "[1000, 1050, 1100, 1101]"]
    by (simp add: zero d)
  have f: "lastTypeTime (afterKeystrokes initialState [1000, 1050, 1100, 1101]) = 1101"
    using typing_sound_throttled [of 0 initialState "[1000, 1050, 1100, 1101]"]
    by (simp add: zero d)
  from e f typing_sound_throttled [of 1100 "initialState\<lparr>lastTypeTime := 1000\<rparr>" "[]"]
    typing_sound_throttled [of 1101 "initialState\<lparr>lastTypeTime := 1000\<rparr>" "[]"]
  show ?thesis by simp
qed

end
